theory Spec2Isabelle
  imports Main
begin

section \<open>The header pitivi-projectsourcelist.h\<close>

text \<open>
  The only source file is a C header: an include guard, six macros, four typedefs of
  struct tags, two struct definitions and six function prototypes. It has no function
  body. The header is embedded as the list of its lines, in the order of the file, and
  the C preprocessor's treatment of those lines is a function on an explicit state.
\<close>

subsection \<open>C types and declarations\<close>

type_synonym token = string

text \<open>
  A type as the header writes it: \<open>void\<close>, a named type (\<open>gboolean\<close>, \<open>guint\<close>,
  \<open>GObject\<close>, a typedef of this header, ...) or a pointer to a type.
\<close>

datatype ctype = TVoid | TName token | TPtr ctype

abbreviation gboolean :: ctype where "gboolean \<equiv> TName ''gboolean''"
abbreviation guint :: ctype where "guint \<equiv> TName ''guint''"
abbreviation gchar_ptr :: ctype where "gchar_ptr \<equiv> TPtr (TName ''gchar'')"
abbreviation GType :: ctype where "GType \<equiv> TName ''GType''"
abbreviation handle :: ctype where "handle \<equiv> TPtr (TName ''PitiviProjectSourceList'')"

text \<open>
  A function prototype: return type, name and parameters (type and name each). The
  parameter list \<open>(void)\<close> is the empty list.
\<close>

datatype prototype =
  Prototype (ret: ctype) (fname: token) (params: "(ctype \<times> token) list")

text \<open>
  \<open>Typedef tag alias\<close> is \<open>typedef struct tag alias;\<close>;
  \<open>Struct tag members\<close> is \<open>struct tag { members };\<close>.
\<close>

datatype decl =
    Typedef token token
  | Struct token "(ctype \<times> token) list"
  | Proto prototype

text \<open>
  A line of the header. \<open>Define name ps body\<close> is \<open>#define\<close>: \<open>ps\<close> is \<open>None\<close> for
  an object-like macro and the parameter names for a function-like one; \<open>body\<close> is the
  replacement list, token by token.
\<close>

datatype line =
    IfNDef token
  | Define token "token list option" "token list"
  | EndIf
  | Decl decl

subsection \<open>The file\<close>

definition pitivi_projectsourcelist_h :: "line list" where
  "pitivi_projectsourcelist_h =
    [IfNDef ''PITIVI_PROJECTSOURCELIST_H'',
     Define ''PITIVI_PROJECTSOURCELIST_H'' None [],
     Define ''PITIVI_PROJECTSOURCELIST_TYPE'' None
       [''('', ''pitivi_projectsourcelist_get_type'', ''('', '')'', '')''],
     Define ''PITIVI_PROJECTSOURCELIST'' (Some [''obj''])
       [''('', ''G_TYPE_CHECK_INSTANCE_CAST'', ''('', ''('', ''obj'', '')'', '','',
        ''PITIVI_PROJECTSOURCELIST_TYPE'', '','', ''PitiviProjectSourceList'', '')'', '')''],
     Define ''PITIVI_PROJECTSOURCELIST_CLASS'' (Some [''klass''])
       [''('', ''G_TYPE_CHECK_CLASS_CAST'', ''('', ''('', ''klass'', '')'', '','',
        ''PITIVI_PROJECTSOURCELIST_TYPE'', '','', ''PitiviProjectSourceListClass'', '')'', '')''],
     Define ''PITIVI_IS_PROJECTSOURCELIST'' (Some [''obj''])
       [''('', ''G_TYPE_CHECK_TYPE'', ''('', ''('', ''obj'', '')'', '','',
        ''PITIVI_PROJECTSOURCELIST_TYPE'', '')'', '')''],
     Define ''PITIVI_IS_PROJECTSOURCELIST_CLASS'' (Some [''klass''])
       [''('', ''G_TYPE_CHECK_CLASS_TYPE'', ''('', ''('', ''klass'', '')'', '','',
        ''PITIVI_PROJECTSOURCELIST_TYPE'', '')'', '')''],
     Define ''PITIVI_PROJECTSOURCELIST_GET_CLASS'' (Some [''obj''])
       [''('', ''G_TYPE_INSTANCE_GET_CLASS'', ''('', ''('', ''obj'', '')'', '','',
        ''PITIVI_PROJECTSOURCELIST_TYPE'', '','', ''PitiviProjectSourceListClass'', '')'', '')''],
     Decl (Typedef ''_PitiviProjectSourceList'' ''PitiviProjectSourceList''),
     Decl (Typedef ''_PitiviProjectSourceListClass'' ''PitiviProjectSourceListClass''),
     Decl (Typedef ''_PitiviProjectSourceListPrivate'' ''PitiviProjectSourceListPrivate''),
     Decl (Typedef ''_PitiviSourceBin'' ''PitiviSourceBin''),
     Decl (Struct ''_PitiviProjectSourceList''
       [(TName ''GObject'', ''parent''),
        (TPtr (TName ''PitiviProjectSourceListPrivate''), ''private'')]),
     Decl (Struct ''_PitiviProjectSourceListClass''
       [(TName ''GObjectClass'', ''parent'')]),
     Decl (Proto (Prototype GType ''pitivi_projectsourcelist_get_type'' [])),
     Decl (Proto (Prototype handle ''pitivi_projectsourcelist_new'' [])),
     Decl (Proto (Prototype gboolean ''pitivi_projectsourcelist_add_file_to_bin''
       [(handle, ''self''), (guint, ''bin_pos''), (gchar_ptr, ''source'')])),
     Decl (Proto (Prototype TVoid ''pitivi_projectsourcelist_new_bin''
       [(handle, ''self''), (gchar_ptr, ''bin_name'')])),
     Decl (Proto (Prototype gchar_ptr ''pitivi_projectsourcelist_get_file_info''
       [(handle, ''self''), (guint, ''bin_pos''), (guint, ''next_file'')])),
     Decl (Proto (Prototype TVoid ''pitivi_projectsourcelist_showfile''
       [(handle, ''self''), (guint, ''bin_pos'')])),
     EndIf]"

subsection \<open>Reading the declarations\<close>

fun prototypes :: "line list \<Rightarrow> prototype list" where
  "prototypes [] = []"
| "prototypes (Decl (Proto p) # ls) = p # prototypes ls"
| "prototypes (_ # ls) = prototypes ls"

text \<open>The prototype declared under a name, if there is one (the first, if several).\<close>

fun prototype_of :: "line list \<Rightarrow> token \<Rightarrow> prototype option" where
  "prototype_of [] f = None"
| "prototype_of (Decl (Proto p) # ls) f = (if fname p = f then Some p else prototype_of ls f)"
| "prototype_of (_ # ls) f = prototype_of ls f"

text \<open>
  An operation on a project source list is a prototype whose signature has the handle
  type \<open>PitiviProjectSourceList *\<close>, as its return type or as the type of a parameter.
\<close>

definition on_source_list :: "prototype \<Rightarrow> bool" where
  "on_source_list p = (ret p = handle \<or> handle \<in> fst ` set (params p))"

definition operations :: "line list \<Rightarrow> prototype list" where
  "operations ls = filter on_source_list (prototypes ls)"

text \<open>The member list of the struct defined under a tag; \<open>None\<close> when the file defines no
  struct of that tag (the type stays incomplete).\<close>

fun struct_members :: "line list \<Rightarrow> token \<Rightarrow> (ctype \<times> token) list option" where
  "struct_members [] t = None"
| "struct_members (Decl (Struct tag ms) # ls) t =
     (if tag = t then Some ms else struct_members ls t)"
| "struct_members (_ # ls) t = struct_members ls t"

text \<open>The struct tag a typedef name stands for.\<close>

fun typedef_tag :: "line list \<Rightarrow> token \<Rightarrow> token option" where
  "typedef_tag [] a = None"
| "typedef_tag (Decl (Typedef tag alias) # ls) a =
     (if alias = a then Some tag else typedef_tag ls a)"
| "typedef_tag (_ # ls) a = typedef_tag ls a"


fun declarations :: "line list \<Rightarrow> decl list" where
  "declarations [] = []"
| "declarations (Decl d # ls) = d # declarations ls"
| "declarations (_ # ls) = declarations ls"

text \<open>The function-like macros of the file: name, parameters and replacement list.\<close>

fun function_like :: "line list \<Rightarrow> (token \<times> token list \<times> token list) list" where
  "function_like [] = []"
| "function_like (Define n (Some ps) body # ls) = (n, ps, body) # function_like ls"
| "function_like (_ # ls) = function_like ls"

subsection \<open>The preprocessor\<close>

text \<open>
  The state of the preprocessor within a translation unit: the macros defined so far
  (parameters and replacement list each), one entry per open \<open>#ifndef\<close> (innermost
  first) saying whether its group is kept, and the declarations passed on to the
  compiler so far. A line is processed only when every open conditional keeps its group.
  An \<open>#endif\<close> with no open conditional is an error (\<open>None\<close>). Declarations are passed
  on as they are written; no macro is expanded in them.
\<close>

type_synonym macro = "token list option \<times> token list"

record pp_state =
  macros :: "token \<rightharpoonup> macro"
  conds :: "bool list"
  emitted :: "decl list"

definition active :: "pp_state \<Rightarrow> bool" where
  "active s = list_all (\<lambda>c. c) (conds s)"

fun pp_line :: "line \<Rightarrow> pp_state \<Rightarrow> pp_state option" where
  "pp_line (IfNDef n) s = Some (s\<lparr>conds := (macros s n = None) # conds s\<rparr>)"
| "pp_line EndIf s =
     (case conds s of [] \<Rightarrow> None | c # cs \<Rightarrow> Some (s\<lparr>conds := cs\<rparr>))"
| "pp_line (Define n ps body) s =
     Some (if active s then s\<lparr>macros := (macros s)(n \<mapsto> (ps, body))\<rparr> else s)"
| "pp_line (Decl d) s =
     Some (if active s then s\<lparr>emitted := emitted s @ [d]\<rparr> else s)"

fun pp_lines :: "line list \<Rightarrow> pp_state \<Rightarrow> pp_state option" where
  "pp_lines [] s = Some s"
| "pp_lines (l # ls) s = (case pp_line l s of None \<Rightarrow> None | Some s' \<Rightarrow> pp_lines ls s')"

text \<open>\<open>#include "pitivi-projectsourcelist.h"\<close>, once and \<open>n\<close> times in a row.\<close>

definition include_file :: "pp_state \<Rightarrow> pp_state option" where
  "include_file s = pp_lines pitivi_projectsourcelist_h s"

fun include_n :: "nat \<Rightarrow> pp_state \<Rightarrow> pp_state option" where
  "include_n 0 s = Some s"
| "include_n (Suc n) s =
     (case include_file s of None \<Rightarrow> None | Some s' \<Rightarrow> include_n n s')"

definition guard :: token where
  "guard = ''PITIVI_PROJECTSOURCELIST_H''"

text \<open>The start of a translation unit, and the macros the header leaves defined there.\<close>

definition initial :: pp_state where
  "initial = \<lparr>macros = Map.empty, conds = [], emitted = []\<rparr>"

definition header_macros :: "token \<rightharpoonup> macro" where
  "header_macros = (case include_file initial of None \<Rightarrow> Map.empty | Some s \<Rightarrow> macros s)"

text \<open>
  One scan of a token list against a macro table: a token that names an object-like
  macro is replaced by that macro's replacement list. Function-like macros are expanded
  only where they are invoked, and the \<open>G_TYPE_...\<close> macros belong to GLib's headers,
  so both stay as they are written.
\<close>

fun expand :: "(token \<rightharpoonup> macro) \<Rightarrow> token list \<Rightarrow> token list" where
  "expand ms [] = []"
| "expand ms (t # ts) =
     (case ms t of
        Some (None, body) \<Rightarrow> body @ expand ms ts
      | _ \<Rightarrow> t # expand ms ts)"

section \<open>The operations, modelled from the specification\<close>

text \<open>
  The bodies of the five operations are in \<open>pitivi-projectsourcelist.c\<close>, which is not
  among the sources; the header declares the private state as a pointer to an incomplete
  type. The definitions of this section follow the specification's words instead: a
  source list owns zero or more bins; a bin is a named grouping of source files,
  identified by name and position; a source is a filesystem path registered into a bin.
\<close>

record source_bin =
  bin_name :: string
  bin_sources :: "string list"

type_synonym source_list = "source_bin list"

text \<open>Modelled from the spec: the body of \<open>pitivi_projectsourcelist_new\<close> is missing.
  "Construct a new, empty source list."\<close>

definition pitivi_projectsourcelist_new :: source_list where
  "pitivi_projectsourcelist_new = []"

text \<open>Modelled from the spec: the body of \<open>pitivi_projectsourcelist_new_bin\<close> is missing.
  "Create a new named bin." The specification does not say where the bin is placed; the
  model puts it after the existing bins, whose positions stay. The result is the source
  list alone, as the function returns \<open>void\<close>.\<close>

definition pitivi_projectsourcelist_new_bin :: "source_list \<Rightarrow> string \<Rightarrow> source_list" where
  "pitivi_projectsourcelist_new_bin self name =
     self @ [\<lparr>bin_name = name, bin_sources = []\<rparr>]"


text \<open>Modelled from the spec: the body of \<open>pitivi_projectsourcelist_showfile\<close> is
  missing. "Print debug information for a bin's contents." The result is the source
  list after the call and the lines printed: one per file of the bin, none when there
  is no such bin.\<close>

definition pitivi_projectsourcelist_showfile ::
  "source_list \<Rightarrow> nat \<Rightarrow> source_list \<times> string list" where
  "pitivi_projectsourcelist_showfile self bin_pos =
     (self, if bin_pos < length self then bin_sources (self ! bin_pos) else [])"

section \<open>Facts about the file\<close>

lemma prototypes_header:
  "prototypes pitivi_projectsourcelist_h =
    [Prototype GType ''pitivi_projectsourcelist_get_type'' [],
     Prototype handle ''pitivi_projectsourcelist_new'' [],
     Prototype gboolean ''pitivi_projectsourcelist_add_file_to_bin''
       [(handle, ''self''), (guint, ''bin_pos''), (gchar_ptr, ''source'')],
     Prototype TVoid ''pitivi_projectsourcelist_new_bin''
       [(handle, ''self''), (gchar_ptr, ''bin_name'')],
     Prototype gchar_ptr ''pitivi_projectsourcelist_get_file_info''
       [(handle, ''self''), (guint, ''bin_pos''), (guint, ''next_file'')],
     Prototype TVoid ''pitivi_projectsourcelist_showfile''
       [(handle, ''self''), (guint, ''bin_pos'')]]"
  by (simp add: pitivi_projectsourcelist_h_def)

lemma operations_header:
  "operations pitivi_projectsourcelist_h =
    [Prototype handle ''pitivi_projectsourcelist_new'' [],
     Prototype gboolean ''pitivi_projectsourcelist_add_file_to_bin''
       [(handle, ''self''), (guint, ''bin_pos''), (gchar_ptr, ''source'')],
     Prototype TVoid ''pitivi_projectsourcelist_new_bin''
       [(handle, ''self''), (gchar_ptr, ''bin_name'')],
     Prototype gchar_ptr ''pitivi_projectsourcelist_get_file_info''
       [(handle, ''self''), (guint, ''bin_pos''), (guint, ''next_file'')],
     Prototype TVoid ''pitivi_projectsourcelist_showfile''
       [(handle, ''self''), (guint, ''bin_pos'')]]"
  by (simp add: operations_def prototypes_header on_source_list_def)

text \<open>
  Including the file where the guard is already defined, or inside a skipped group,
  changes nothing; including it where the guard is not defined defines the guard and
  passes on every declaration of the file.
\<close>

lemma include_guarded:
  assumes "macros s guard = Some m"
  shows "include_file s = Some s"
  using assms
  by (simp add: include_file_def pitivi_projectsourcelist_h_def guard_def active_def)

lemma include_inactive:
  assumes "\<not> active s"
  shows "include_file s = Some s"
  using assms
  by (simp add: include_file_def pitivi_projectsourcelist_h_def active_def)

lemma include_skipped:
  assumes "macros s guard \<noteq> None \<or> \<not> active s"
  shows "include_file s = Some s"
proof (cases "active s")
  case False
  then show ?thesis by (rule include_inactive)
next
  case True
  with assms obtain m where "macros s guard = Some m" by auto
  then show ?thesis by (rule include_guarded)
qed

lemma include_fresh:
  assumes "macros s guard = None" and "active s"
  shows "\<exists>s'. include_file s = Some s' \<and> macros s' guard \<noteq> None \<and> conds s' = conds s
     \<and> emitted s' = emitted s @ declarations pitivi_projectsourcelist_h"
  using assms
  by (simp add: include_file_def pitivi_projectsourcelist_h_def guard_def active_def)

lemma include_again:
  assumes "macros s guard \<noteq> None \<or> \<not> active s"
  shows "include_n n s = Some s"
proof (induction n)
  case 0
  show ?case by simp
next
  case (Suc n)
  from assms have "include_file s = Some s" by (rule include_skipped)
  with Suc show ?case by simp
qed

lemma include_once:
  "\<exists>s'. include_file s = Some s' \<and> (macros s' guard \<noteq> None \<or> \<not> active s')"
proof (cases "macros s guard = None \<and> active s")
  case True
  then obtain s' where "include_file s = Some s'" "macros s' guard \<noteq> None"
    using include_fresh by blast
  then show ?thesis by blast
next
  case False
  then have "macros s guard \<noteq> None \<or> \<not> active s" by simp
  then have "include_file s = Some s" by (rule include_skipped)
  with False show ?thesis by simp
qed

section \<open>The declared interface\<close>

text \<open>
  C1. Among the operations on a project source list,
  \<open>pitivi_projectsourcelist_add_file_to_bin\<close> is the only one that returns a boolean: the
  prototypes of the header that return \<open>gboolean\<close> are that one alone, it takes the
  handle, an unsigned bin position and a \<open>gchar *\<close> path, and the other four operations
  return the handle, a \<open>gchar *\<close> string or \<open>void\<close>.
\<close>

theorem add_file_to_bin_only_boolean:
  "filter (\<lambda>p. ret p = gboolean) (prototypes pitivi_projectsourcelist_h) =
     [Prototype gboolean ''pitivi_projectsourcelist_add_file_to_bin''
        [(handle, ''self''), (guint, ''bin_pos''), (gchar_ptr, ''source'')]]
   \<and> map (\<lambda>p. (fname p, ret p)) (operations pitivi_projectsourcelist_h) =
     [(''pitivi_projectsourcelist_new'', handle),
      (''pitivi_projectsourcelist_add_file_to_bin'', gboolean),
      (''pitivi_projectsourcelist_new_bin'', TVoid),
      (''pitivi_projectsourcelist_get_file_info'', gchar_ptr),
      (''pitivi_projectsourcelist_showfile'', TVoid)]"
  by (simp add: prototypes_header operations_header)

text \<open>
  C2, as stated: the header declares exactly five function prototypes. It declares six.
\<close>

theorem five_prototypes_counterexample:
  "length (prototypes pitivi_projectsourcelist_h) \<noteq> 5"
  by (simp add: prototypes_header)

text \<open>
  C2, amended: the header declares exactly six function prototypes, in this order: the
  type-registration function \<open>pitivi_projectsourcelist_get_type\<close>, then the five
  operations on a source list (create, add a file to a bin, create a named bin, query
  file info, debug-print a bin); those five are all the prototypes whose signature has
  the handle type.
\<close>

theorem six_prototypes:
  "map fname (prototypes pitivi_projectsourcelist_h) =
     [''pitivi_projectsourcelist_get_type'',
      ''pitivi_projectsourcelist_new'',
      ''pitivi_projectsourcelist_add_file_to_bin'',
      ''pitivi_projectsourcelist_new_bin'',
      ''pitivi_projectsourcelist_get_file_info'',
      ''pitivi_projectsourcelist_showfile'']
   \<and> map fname (operations pitivi_projectsourcelist_h) =
     [''pitivi_projectsourcelist_new'',
      ''pitivi_projectsourcelist_add_file_to_bin'',
      ''pitivi_projectsourcelist_new_bin'',
      ''pitivi_projectsourcelist_get_file_info'',
      ''pitivi_projectsourcelist_showfile'']"
  by (simp add: prototypes_header operations_header)

text \<open>
  C3. \<open>pitivi_projectsourcelist_new\<close> takes no arguments and returns the handle type,
  and the source list it constructs is empty: it has zero bins.
\<close>

theorem new_is_empty:
  "prototype_of pitivi_projectsourcelist_h ''pitivi_projectsourcelist_new'' =
     Some (Prototype handle ''pitivi_projectsourcelist_new'' [])
   \<and> length pitivi_projectsourcelist_new = 0"
  by (simp add: pitivi_projectsourcelist_h_def pitivi_projectsourcelist_new_def)




text \<open>
  C5. \<open>pitivi_projectsourcelist_new_bin\<close> takes the handle and a name string and returns
  \<open>void\<close>; it adds one bin to the source list, the added bin has the given name and no
  file, and the bins that were there stay at their positions.
\<close>

theorem new_bin_adds_named_bin:
  "prototype_of pitivi_projectsourcelist_h ''pitivi_projectsourcelist_new_bin'' =
     Some (Prototype TVoid ''pitivi_projectsourcelist_new_bin''
       [(handle, ''self''), (gchar_ptr, ''bin_name'')])
   \<and> length (pitivi_projectsourcelist_new_bin self name) = Suc (length self)
   \<and> take (length self) (pitivi_projectsourcelist_new_bin self name) = self
   \<and> pitivi_projectsourcelist_new_bin self name ! length self =
       \<lparr>bin_name = name, bin_sources = []\<rparr>"
  by (simp add: pitivi_projectsourcelist_h_def pitivi_projectsourcelist_new_bin_def)

text \<open>
  C6. \<open>pitivi_projectsourcelist_showfile\<close> takes the handle and a bin position and
  returns \<open>void\<close>; the source list after the call is the source list before it, whatever
  the bin position.
\<close>

theorem showfile_keeps_state:
  "prototype_of pitivi_projectsourcelist_h ''pitivi_projectsourcelist_showfile'' =
     Some (Prototype TVoid ''pitivi_projectsourcelist_showfile''
       [(handle, ''self''), (guint, ''bin_pos'')])
   \<and> fst (pitivi_projectsourcelist_showfile self bin_pos) = self"
  by (simp add: pitivi_projectsourcelist_h_def pitivi_projectsourcelist_showfile_def)

text \<open>
  C7. The instance struct has exactly two members: the \<open>GObject\<close> parent first, then one
  pointer to \<open>PitiviProjectSourceListPrivate\<close>, a typedef of a struct tag for which the
  header gives no member list. The class struct has the \<open>GObjectClass\<close> parent as its
  first (and only) member.
\<close>

theorem struct_layout:
  "typedef_tag pitivi_projectsourcelist_h ''PitiviProjectSourceList'' =
     Some ''_PitiviProjectSourceList''
   \<and> struct_members pitivi_projectsourcelist_h ''_PitiviProjectSourceList'' =
     Some [(TName ''GObject'', ''parent''),
           (TPtr (TName ''PitiviProjectSourceListPrivate''), ''private'')]
   \<and> typedef_tag pitivi_projectsourcelist_h ''PitiviProjectSourceListPrivate'' =
     Some ''_PitiviProjectSourceListPrivate''
   \<and> struct_members pitivi_projectsourcelist_h ''_PitiviProjectSourceListPrivate'' = None
   \<and> typedef_tag pitivi_projectsourcelist_h ''PitiviProjectSourceListClass'' =
     Some ''_PitiviProjectSourceListClass''
   \<and> struct_members pitivi_projectsourcelist_h ''_PitiviProjectSourceListClass'' =
     Some [(TName ''GObjectClass'', ''parent'')]"
  by (simp add: pitivi_projectsourcelist_h_def)

text \<open>
  C8. Besides the five operations on a source list, the header declares
  \<open>pitivi_projectsourcelist_get_type\<close>, with no parameter and return type \<open>GType\<close>. The
  macro \<open>PITIVI_PROJECTSOURCELIST_TYPE\<close> is a call of it, and the replacement list of
  each of the five function-like macros, scanned against the header's macros, passes
  that call as the type argument of the GLib macro it invokes.
\<close>

theorem get_type_declared_and_used:
  "prototypes pitivi_projectsourcelist_h =
     Prototype GType ''pitivi_projectsourcelist_get_type'' [] #
     operations pitivi_projectsourcelist_h
   \<and> length (operations pitivi_projectsourcelist_h) = 5
   \<and> header_macros ''PITIVI_PROJECTSOURCELIST_TYPE'' =
     Some (None, [''('', ''pitivi_projectsourcelist_get_type'', ''('', '')'', '')''])
   \<and> map (\<lambda>(n, ps, body). (n, expand header_macros body))
       (function_like pitivi_projectsourcelist_h) =
     [(''PITIVI_PROJECTSOURCELIST'',
       [''('', ''G_TYPE_CHECK_INSTANCE_CAST'', ''('', ''('', ''obj'', '')'', '','',
        ''('', ''pitivi_projectsourcelist_get_type'', ''('', '')'', '')'', '','',
        ''PitiviProjectSourceList'', '')'', '')'']),
      (''PITIVI_PROJECTSOURCELIST_CLASS'',
       [''('', ''G_TYPE_CHECK_CLASS_CAST'', ''('', ''('', ''klass'', '')'', '','',
        ''('', ''pitivi_projectsourcelist_get_type'', ''('', '')'', '')'', '','',
        ''PitiviProjectSourceListClass'', '')'', '')'']),
      (''PITIVI_IS_PROJECTSOURCELIST'',
       [''('', ''G_TYPE_CHECK_TYPE'', ''('', ''('', ''obj'', '')'', '','',
        ''('', ''pitivi_projectsourcelist_get_type'', ''('', '')'', '')'', '')'', '')'']),
      (''PITIVI_IS_PROJECTSOURCELIST_CLASS'',
       [''('', ''G_TYPE_CHECK_CLASS_TYPE'', ''('', ''('', ''klass'', '')'', '','',
        ''('', ''pitivi_projectsourcelist_get_type'', ''('', '')'', '')'', '')'', '')'']),
      (''PITIVI_PROJECTSOURCELIST_GET_CLASS'',
       [''('', ''G_TYPE_INSTANCE_GET_CLASS'', ''('', ''('', ''obj'', '')'', '','',
        ''('', ''pitivi_projectsourcelist_get_type'', ''('', '')'', '')'', '','',
        ''PitiviProjectSourceListClass'', '')'', '')''])]"
proof -
  have "prototypes pitivi_projectsourcelist_h =
     Prototype GType ''pitivi_projectsourcelist_get_type'' [] #
     operations pitivi_projectsourcelist_h"
    by (simp add: prototypes_header operations_header)
  moreover have "length (operations pitivi_projectsourcelist_h) = 5"
    by (simp add: operations_header)
  moreover have "header_macros ''PITIVI_PROJECTSOURCELIST_TYPE'' =
     Some (None, [''('', ''pitivi_projectsourcelist_get_type'', ''('', '')'', '')''])"
    by (simp add: header_macros_def include_file_def initial_def active_def
        pitivi_projectsourcelist_h_def)
  moreover have "map (\<lambda>(n, ps, body). (n, expand header_macros body))
       (function_like pitivi_projectsourcelist_h) =
     [(''PITIVI_PROJECTSOURCELIST'',
       [''('', ''G_TYPE_CHECK_INSTANCE_CAST'', ''('', ''('', ''obj'', '')'', '','',
        ''('', ''pitivi_projectsourcelist_get_type'', ''('', '')'', '')'', '','',
        ''PitiviProjectSourceList'', '')'', '')'']),
      (''PITIVI_PROJECTSOURCELIST_CLASS'',
       [''('', ''G_TYPE_CHECK_CLASS_CAST'', ''('', ''('', ''klass'', '')'', '','',
        ''('', ''pitivi_projectsourcelist_get_type'', ''('', '')'', '')'', '','',
        ''PitiviProjectSourceListClass'', '')'', '')'']),
      (''PITIVI_IS_PROJECTSOURCELIST'',
       [''('', ''G_TYPE_CHECK_TYPE'', ''('', ''('', ''obj'', '')'', '','',
        ''('', ''pitivi_projectsourcelist_get_type'', ''('', '')'', '')'', '')'', '')'']),
      (''PITIVI_IS_PROJECTSOURCELIST_CLASS'',
       [''('', ''G_TYPE_CHECK_CLASS_TYPE'', ''('', ''('', ''klass'', '')'', '','',
        ''('', ''pitivi_projectsourcelist_get_type'', ''('', '')'', '')'', '')'', '')'']),
      (''PITIVI_PROJECTSOURCELIST_GET_CLASS'',
       [''('', ''G_TYPE_INSTANCE_GET_CLASS'', ''('', ''('', ''obj'', '')'', '','',
        ''('', ''pitivi_projectsourcelist_get_type'', ''('', '')'', '')'', '','',
        ''PitiviProjectSourceListClass'', '')'', '')''])]"
    by (simp add: header_macros_def include_file_def initial_def active_def
        pitivi_projectsourcelist_h_def)
  ultimately show ?thesis by blast
qed

text \<open>
  C9. Including the header always succeeds, and including it any number of times in a
  row, from any state of the preprocessor, leaves the state that including it once
  leaves: the same macros and the same declarations passed on. Where the guard is not
  yet defined, those are the declarations so far followed by the header's, once.
\<close>

theorem include_idempotent:
  "include_file s \<noteq> None
   \<and> include_n (Suc n) s = include_file s
   \<and> (macros s guard = None \<and> active s \<longrightarrow>
        map_option emitted (include_n (Suc n) s) =
          Some (emitted s @ declarations pitivi_projectsourcelist_h))"
proof -
  obtain s' where s': "include_file s = Some s'"
      "macros s' guard \<noteq> None \<or> \<not> active s'"
    using include_once by blast
  have again: "include_n n s' = Some s'"
    using s'(2) by (rule include_again)
  have same: "include_n (Suc n) s = include_file s"
    using s'(1) again by simp
  have fresh: "map_option emitted (include_file s) =
      Some (emitted s @ declarations pitivi_projectsourcelist_h)"
    if undefined_guard: "macros s guard = None" and kept: "active s"
  proof -
    obtain t where "include_file s = Some t"
        "emitted t = emitted s @ declarations pitivi_projectsourcelist_h"
      using include_fresh [OF undefined_guard kept] by blast
    then show ?thesis by simp
  qed
  from s'(1) same fresh show ?thesis by simp
qed

theorem include_idempotent_witness:
  "macros initial guard = None \<and> active initial
   \<and> map_option emitted (include_n (Suc 2) initial) =
       Some (declarations pitivi_projectsourcelist_h)"
proof -
  have start: "macros initial guard = None \<and> active initial"
    by (simp add: initial_def active_def)
  with include_idempotent [of initial 2]
  have "map_option emitted (include_n (Suc 2) initial) =
      Some (emitted initial @ declarations pitivi_projectsourcelist_h)"
    by blast
  moreover have "emitted initial = []"
    by (simp add: initial_def)
  ultimately show ?thesis using start by simp
qed



end
